theory Spec2Isabelle
  imports Complex_Main "HOL-Library.Char_ord" "HOL-Library.List_Lexorder"
begin

section \<open>Conventions of the embedding\<close>

text \<open>
  The program is a JavaScript chat bot (AeroWizard). Its decision logic lives in
  \<^verbatim>\<open>services/priceMonitor.js\<close>, \<^verbatim>\<open>services/flightTracker.js\<close>,
  \<^verbatim>\<open>services/database.js\<close> and \<^verbatim>\<open>index.js\<close>.

  \<^item> JavaScript numbers are modelled as \<open>real\<close>; \<open>NaN\<close> and rounding are outside the
    model. A nullable number is a \<open>real option\<close> (\<open>None\<close> is \<open>null\<close> or
    \<open>undefined\<close>).
  \<^item> Document ids and Telegram user ids are natural numbers; time stamps are integer
    milliseconds since the epoch.
  \<^item> The Firestore collections are lists of documents; every document carries the id of the
    user under whose path it is stored. The store is reliable except where a fault is passed in
    explicitly.
  \<^item> \<open>async\<close> functions are state transformers on the record \<open>system\<close>; \<open>sleep\<close> advances
    the clock of that record.
\<close>

type_synonym doc_id = nat
type_synonym user_id = nat
type_synonym timestamp = int

subsection \<open>JavaScript values that occur in status snapshots\<close>

datatype jv =
  JUndefined | JNull | JBool bool | JNum real | JStr string | JObj "(string \<times> jv) list"

text \<open>Truthiness of a value (\<open>!v\<close> is its negation).\<close>

fun truthy :: "jv \<Rightarrow> bool" where
  "truthy JUndefined = False"
| "truthy JNull = False"
| "truthy (JBool b) = b"
| "truthy (JNum x) = (x \<noteq> 0)"
| "truthy (JStr s) = (s \<noteq> [])"
| "truthy (JObj kvs) = True"

fun nullish :: "jv \<Rightarrow> bool" where
  "nullish JUndefined = True"
| "nullish JNull = True"
| "nullish v = False"

text \<open>Property access \<open>v.k\<close> on a value that is not \<open>null\<close> or \<open>undefined\<close>, and the
  optional chain \<open>v?.k\<close> on any value: a missing property reads as \<open>undefined\<close>.\<close>

fun get_prop :: "jv \<Rightarrow> string \<Rightarrow> jv" where
  "get_prop (JObj kvs) k = (case map_of kvs k of None \<Rightarrow> JUndefined | Some v \<Rightarrow> v)"
| "get_prop v k = JUndefined"

text \<open>\<open>a !== b\<close>: primitives are compared by value; two objects that come from two different
  parses are never the same object.\<close>

fun strict_neq :: "jv \<Rightarrow> jv \<Rightarrow> bool" where
  "strict_neq (JObj a) v = True"
| "strict_neq v (JObj b) = True"
| "strict_neq a b = (a \<noteq> b)"

text \<open>\<open>a || b\<close> and \<open>c && v\<close> (with a boolean \<open>c\<close>) return one of their operands.\<close>

definition js_or :: "jv \<Rightarrow> jv \<Rightarrow> jv" where
  "js_or a b = (if truthy a then a else b)"

definition js_and :: "bool \<Rightarrow> jv \<Rightarrow> jv" where
  "js_and c v = (if c then v else JBool False)"

text \<open>Truthiness of a nullable number: \<open>null\<close>, \<open>undefined\<close> and \<open>0\<close> are falsy.\<close>

fun truthy_num :: "real option \<Rightarrow> bool" where
  "truthy_num None = False"
| "truthy_num (Some x) = (x \<noteq> 0)"

text \<open>The number a nullable number stands for in a comparison or in arithmetic
  (\<open>null\<close> converts to \<open>0\<close>).\<close>

fun to_number :: "real option \<Rightarrow> real" where
  "to_number None = 0"
| "to_number (Some x) = x"

text \<open>A string field that holds JSON text, represented by the value the text denotes.
  \<open>NoText\<close> is \<open>null\<close>, \<open>undefined\<close> or the empty string; \<open>Malformed\<close> is any non-empty
  text on which \<open>JSON.parse\<close> throws.\<close>

datatype json_text = NoText | Malformed | Json jv

fun text_truthy :: "json_text \<Rightarrow> bool" where
  "text_truthy NoText = False"
| "text_truthy t = True"

datatype error = SyntaxError | TypeError | RangeError | NotFound | NotOwned | StoreError

fun JSON_parse :: "json_text \<Rightarrow> error + jv" where
  "JSON_parse (Json v) = Inr v"
| "JSON_parse t = Inl SyntaxError"

text \<open>\<open>JSON.stringify\<close> of an object given by its properties: properties whose value is
  \<open>undefined\<close> are left out.\<close>

definition JSON_stringify :: "(string \<times> jv) list \<Rightarrow> json_text" where
  "JSON_stringify kvs = Json (JObj (filter (\<lambda>kv. snd kv \<noteq> JUndefined) kvs))"

section \<open>Data model\<close>

record offer =
  price :: real
  airline :: string
  bookingUrl :: "string option"

datatype search_result = ApiError | Flights "offer list"

record price_history_entry =
  alert_id :: doc_id
  price :: real
  airline :: "string option"
  booking_url :: "string option"
  timestamp :: timestamp

record alert =
  alert_id :: doc_id
  telegram_id :: user_id
  origin :: string
  destination :: string
  departure_date :: string
  return_date :: "string option"
  min_price :: real
  current_price :: "real option"
  lowest_price :: "real option"
  is_active :: bool
  created_at :: timestamp
  last_checked :: "timestamp option"
  booking_url :: "string option"

text \<open>The status object built by \<open>getFlightStatus\<close>.\<close>

record current_status =
  flightDesignator :: jv
  departureAirport :: jv
  arrivalAirport :: jv
  scheduledDepartureTime :: jv
  scheduledArrivalTime :: jv
  actualDepartureTime :: jv
  actualArrivalTime :: jv
  terminal :: jv
  gate :: jv
  status :: jv
  checked :: jv

record flight_track =
  track_id :: doc_id
  telegram_id :: user_id
  carrier_code :: string
  flight_number :: string
  date :: string
  origin :: "string option"
  destination :: "string option"
  last_status :: json_text
  created_at :: string
  active :: bool
  is_segment :: bool
  segment_index :: "nat option"
  parent_route :: "string option"
  last_checked :: "string option"
  cancelled_at :: "string option"

datatype reason = price_drop | price_increase | target_reached | significant_drop | first_check

record notification =
  notify :: bool
  reason :: "reason option"

text \<open>Messages handed to the chat transport; the wording of a message is not modelled.\<close>

datatype message =
    PriceAlertMsg user_id doc_id "reason option" offer "real option"
  | StatusUpdateMsg user_id doc_id current_status
  | JourneyConfirmation nat nat
  | TrackConfirmation nat

text \<open>Calls whose order matters, recorded as they are made (a history variable; the
  program itself keeps no such list).\<close>

datatype call = TrackCreated doc_id | StatusChecked doc_id

record system =
  flight_alerts :: "alert list"
  price_history :: "price_history_entry list"
  flight_tracks :: "flight_track list"
  outbox :: "message list"
  isRunning :: bool
  clock :: timestamp
  next_id :: doc_id
  timers :: "(timestamp \<times> doc_id) list"
  calls :: "call list"

section \<open>The store (services/database.js), price alerts\<close>

text \<open>The first document of a query result, and an update of that document.\<close>

fun update_first :: "('a \<Rightarrow> bool) \<Rightarrow> ('a \<Rightarrow> 'a) \<Rightarrow> 'a list \<Rightarrow> 'a list" where
  "update_first P f [] = []"
| "update_first P f (x # xs) = (if P x then f x # xs else x # update_first P f xs)"

definition getAlert :: "doc_id \<Rightarrow> system \<Rightarrow> alert option" where
  "getAlert alertId s = find (\<lambda>a. alert.alert_id a = alertId) (flight_alerts s)"

definition updateAlertCheck :: "doc_id \<Rightarrow> real option \<Rightarrow> system \<Rightarrow> error + system" where
  "updateAlertCheck alertId newPrice s =
     (case find (\<lambda>a. alert.alert_id a = alertId) (flight_alerts s) of
        None \<Rightarrow> Inl NotFound
      | Some alertDoc \<Rightarrow>
          Inr (s\<lparr>flight_alerts :=
                 update_first (\<lambda>a. alert.alert_id a = alertId)
                   (\<lambda>a. (case newPrice of
                            None \<Rightarrow> a\<lparr>alert.last_checked := Some (clock s)\<rparr>
                          | Some p \<Rightarrow> a\<lparr>alert.last_checked := Some (clock s),
                                         current_price := Some p\<rparr>))
                   (flight_alerts s)\<rparr>))"

definition addPriceHistory ::
  "user_id \<Rightarrow> doc_id \<Rightarrow> real \<Rightarrow> string option \<Rightarrow> string option \<Rightarrow> system \<Rightarrow> system" where
  "addPriceHistory userId alertId p airl bUrl s =
     s\<lparr>price_history := price_history s @
         [\<lparr>price_history_entry.alert_id = alertId, price_history_entry.price = p,
           price_history_entry.airline = airl, price_history_entry.booking_url = bUrl,
           timestamp = clock s\<rparr>]\<rparr>"

definition updateAlertPrice :: "doc_id \<Rightarrow> real \<Rightarrow> string option \<Rightarrow> system \<Rightarrow> error + system" where
  "updateAlertPrice alertId currentPrice bUrl s =
     (case getAlert alertId s of
        None \<Rightarrow> Inl NotFound
      | Some alert \<Rightarrow>
          (let lowestPrice =
                 (if truthy_num (lowest_price alert)
                  then min (to_number (lowest_price alert)) currentPrice
                  else currentPrice);
               isDoc = (\<lambda>a. alert.telegram_id a = alert.telegram_id alert \<and>
                             alert.alert_id a = alertId);
               upd = (\<lambda>a. (let a' = a\<lparr>current_price := Some currentPrice,
                                        lowest_price := Some lowestPrice,
                                        alert.last_checked := Some (clock s)\<rparr>
                            in case bUrl of
                                 None \<Rightarrow> a'
                               | Some u \<Rightarrow> (if u = [] then a'
                                            else a'\<lparr>alert.booking_url := Some u\<rparr>)));
               s' = s\<lparr>flight_alerts := update_first isDoc upd (flight_alerts s)\<rparr>
           in Inr (addPriceHistory (alert.telegram_id alert) alertId currentPrice None
                     bUrl s')))"


section \<open>The environment: flight-data provider and date functions\<close>

text \<open>One point of a scheduled flight, as \<open>getFlightStatus\<close> reads it:
  \<open>departure?.timings?.[0]?.value\<close>, \<open>arrival?.timings?.[0]?.value\<close>,
  \<open>arrival?.terminal\<close> and \<open>arrival?.gate\<close>.\<close>

record flight_point =
  iataCode :: jv
  departureTiming :: jv
  arrivalTiming :: jv
  arrivalTerminal :: jv
  arrivalGate :: jv

record scheduled_flight =
  flightDesignator :: jv
  flightPoints :: "flight_point list"

datatype schedule_response = RequestFailed | Schedule "scheduled_flight list"

text \<open>\<open>parseDate\<close> is the time value of \<open>new Date(text)\<close> (\<open>None\<close> for an invalid date),
  \<open>toISOString\<close> is \<open>new Date(t).toISOString()\<close>, \<open>startOfLocalDay\<close> is
  \<open>setHours(0, 0, 0, 0)\<close>.\<close>

record env =
  searchFlights :: "string \<Rightarrow> string \<Rightarrow> string \<Rightarrow> string option \<Rightarrow> search_result"
  fetchSchedule :: "string \<Rightarrow> string \<Rightarrow> string \<Rightarrow> schedule_response"
  parseDate :: "string \<Rightarrow> timestamp option"
  toISOString :: "timestamp \<Rightarrow> string"
  startOfLocalDay :: "timestamp \<Rightarrow> timestamp"

text \<open>\<open>text.split('T')[0]\<close>\<close>

definition before_T :: "string \<Rightarrow> string" where
  "before_T txt = takeWhile (\<lambda>c. c \<noteq> CHR ''T'') txt"

definition sleep :: "int \<Rightarrow> system \<Rightarrow> system" where
  "sleep ms s = s\<lparr>clock := clock s + ms\<rparr>"

section \<open>Price Monitor (services/priceMonitor.js)\<close>

definition shouldNotifyUser :: "alert \<Rightarrow> real \<Rightarrow> real option \<Rightarrow> notification" where
  "shouldNotifyUser alert currentPrice previousPrice =
     (if min_price alert = 0 \<and> truthy_num previousPrice \<and> Some currentPrice \<noteq> previousPrice
      then \<lparr>notify = True,
            reason = Some (if currentPrice < to_number previousPrice
                           then price_drop else price_increase)\<rparr>
      else if currentPrice \<le> min_price alert
      then \<lparr>notify = True, reason = Some target_reached\<rparr>
      else if truthy_num previousPrice \<and> currentPrice < to_number previousPrice \<and>
              (let dropAmount = to_number previousPrice - currentPrice;
                   dropPercentage = (dropAmount / to_number previousPrice) * 100
               in dropAmount \<ge> 50 \<and> dropPercentage \<ge> 20)
      then \<lparr>notify = True, reason = Some significant_drop\<rparr>
      else if \<not> truthy_num previousPrice
      then \<lparr>notify = True, reason = Some first_check\<rparr>
      else \<lparr>notify = False, reason = None\<rparr>)"

definition sendPriceAlert ::
  "alert \<Rightarrow> offer \<Rightarrow> reason option \<Rightarrow> real option \<Rightarrow> system \<Rightarrow> system" where
  "sendPriceAlert alert flightData why previousPrice s =
     s\<lparr>outbox := outbox s @
         [PriceAlertMsg (alert.telegram_id alert) (alert.alert_id alert) why flightData
            previousPrice]\<rparr>"

text \<open>The \<open>forEach\<close> that keeps the first offer of strictly smallest price.\<close>

definition cheapest :: "offer \<Rightarrow> offer list \<Rightarrow> offer \<times> real" where
  "cheapest flight0 flights =
     fold (\<lambda>flight (cheapestFlight, cheapestPrice).
             if offer.price flight < cheapestPrice then (flight, offer.price flight)
             else (cheapestFlight, cheapestPrice))
       flights (flight0, offer.price flight0)"

text \<open>The update that \<open>updateAlertPrice\<close> applies to the document of alert \<open>a\<close>.\<close>

definition repriced :: "alert \<Rightarrow> real \<Rightarrow> timestamp \<Rightarrow> alert \<Rightarrow> alert" where
  "repriced a new now =
     (\<lambda>b. b\<lparr>current_price := Some new,
             lowest_price := Some (if truthy_num (lowest_price a)
                                   then min (to_number (lowest_price a)) new else new),
             alert.last_checked := Some now\<rparr>)"

definition checkSingleAlert :: "env \<Rightarrow> doc_id \<Rightarrow> system \<Rightarrow> system" where
  "checkSingleAlert env alertId s =
     (case getAlert alertId s of
        None \<Rightarrow> s
      | Some alert \<Rightarrow>
          (case searchFlights env (alert.origin alert) (alert.destination alert)
                  (departure_date alert) (return_date alert) of
             ApiError \<Rightarrow>
               (case updateAlertCheck alertId None s of Inl e \<Rightarrow> s | Inr s' \<Rightarrow> s')
           | Flights [] \<Rightarrow>
               (case updateAlertCheck alertId None s of Inl e \<Rightarrow> s | Inr s' \<Rightarrow> s')
           | Flights (flight0 # others) \<Rightarrow>
               (let (cheapestFlight, cheapestPrice) = cheapest flight0 (flight0 # others);
                    previousPrice = current_price alert;
                    notification = shouldNotifyUser alert cheapestPrice previousPrice
                in case updateAlertPrice alertId cheapestPrice None s of
                     Inl e \<Rightarrow> s
                   | Inr s' \<Rightarrow>
                       (if notify notification
                        then sendPriceAlert alert cheapestFlight (reason notification)
                               previousPrice s'
                        else s'))))"

text \<open>Faults of the store that a cycle can meet: the two collection-group queries of
  \<open>checkAllAlerts\<close> rethrow what the store throws.\<close>

datatype store_fault = NoFault | CleanupFails | FetchFails

definition cleanupOldAlerts :: "store_fault \<Rightarrow> env \<Rightarrow> system \<Rightarrow> error + nat \<times> system" where
  "cleanupOldAlerts fault env s =
     (if fault = CleanupFails then Inl StoreError
      else
        (let today = startOfLocalDay env (clock s);
             cutoff = before_T (toISOString env today);
             old = (\<lambda>a. is_active a \<and> departure_date a < cutoff)
         in Inr (length (filter old (flight_alerts s)),
                 s\<lparr>flight_alerts :=
                     map (\<lambda>a. if old a then a\<lparr>is_active := False\<rparr> else a) (flight_alerts s)\<rparr>)))"

text \<open>Active alerts, least recently checked first; a Firestore \<open>orderBy\<close> returns only
  documents that have the ordering field.\<close>

definition getActiveAlerts :: "store_fault \<Rightarrow> system \<Rightarrow> error + alert list" where
  "getActiveAlerts fault s =
     (if fault = FetchFails then Inl StoreError
      else Inr (sort_key (\<lambda>a. to_number (map_option real_of_int (alert.last_checked a)))
                  (filter (\<lambda>a. is_active a \<and> alert.last_checked a \<noteq> None) (flight_alerts s))))"

text \<open>The states a cycle passes through, one after each \<open>await\<close>, in order.\<close>

datatype step =
  CycleStarted | CleanedUp | AlertsFetched nat | AlertChecked doc_id | Slept
  | CycleFailed | CycleFinished

fun check_each :: "env \<Rightarrow> alert list \<Rightarrow> system \<Rightarrow> (step \<times> system) list" where
  "check_each env [] s = []"
| "check_each env (a # alerts) s =
     (let s1 = checkSingleAlert env (alert.alert_id a) s;
          s2 = sleep 2000 s1
      in (AlertChecked (alert.alert_id a), s1) # (Slept, s2) # check_each env alerts s2)"

definition cycle_body :: "env \<Rightarrow> store_fault \<Rightarrow> system \<Rightarrow> (step \<times> system) list" where
  "cycle_body env fault s0 =
     (case cleanupOldAlerts fault env s0 of
        Inl e \<Rightarrow> [(CycleFailed, s0)]
      | Inr (n, s1) \<Rightarrow>
          (CleanedUp, s1) #
          (case getActiveAlerts fault s1 of
             Inl e \<Rightarrow> [(CycleFailed, s1)]
           | Inr alerts \<Rightarrow> (AlertsFetched (length alerts), s1) # check_each env alerts s1))"

definition checkAllAlerts_steps :: "env \<Rightarrow> store_fault \<Rightarrow> system \<Rightarrow> (step \<times> system) list" where
  "checkAllAlerts_steps env fault s =
     (if isRunning s then []
      else
        (let s0 = s\<lparr>isRunning := True\<rparr>;
             body = (CycleStarted, s0) # cycle_body env fault s0
         in body @ [(CycleFinished, (snd (last body))\<lparr>isRunning := False\<rparr>)]))"

definition checkAllAlerts :: "env \<Rightarrow> store_fault \<Rightarrow> system \<Rightarrow> system" where
  "checkAllAlerts env fault s =
     (case checkAllAlerts_steps env fault s of [] \<Rightarrow> s | st # sts \<Rightarrow> snd (last (st # sts)))"

text \<open>\<open>cancelAlert\<close> of the store: the error it throws, if any, and the state it leaves.\<close>

definition cancelAlert :: "doc_id \<Rightarrow> user_id \<Rightarrow> system \<Rightarrow> error option \<times> system" where
  "cancelAlert alertId telegramId s =
     (let mine = (\<lambda>a. alert.telegram_id a = telegramId \<and> alert.alert_id a = alertId);
          anyones = (\<lambda>a. alert.alert_id a = alertId)
      in case find mine (flight_alerts s) of
           None \<Rightarrow>
             (case find anyones (flight_alerts s) of
                None \<Rightarrow> (Some NotFound, s)
              | Some alertDoc \<Rightarrow>
                  (if alert.telegram_id alertDoc \<noteq> telegramId then (Some NotOwned, s)
                   else (None, s\<lparr>flight_alerts :=
                                   update_first anyones (\<lambda>a. a\<lparr>is_active := False\<rparr>)
                                     (flight_alerts s)\<rparr>)))
         | Some alertDoc \<Rightarrow>
             (None, s\<lparr>flight_alerts :=
                        update_first mine (\<lambda>a. a\<lparr>is_active := False\<rparr>) (flight_alerts s)\<rparr>))"


section \<open>The store (services/database.js), flight tracks\<close>

record track_data =
  userId :: user_id
  telegramId :: user_id
  carrierCode :: string
  flightNumber :: string
  date :: string
  origin :: "string option"
  destination :: "string option"
  isSegment :: bool
  segmentIndex :: "nat option"
  parentRoute :: "string option"

text \<open>\<open>x || null\<close> on an optional string: the empty string is falsy.\<close>

fun or_null :: "string option \<Rightarrow> string option" where
  "or_null None = None"
| "or_null (Some x) = (if x = [] then None else Some x)"

text \<open>The store's \<open>createFlightTrack\<close>. The new document gets a fresh id; user documents are
  not modelled.\<close>

definition createFlightTrack_store :: "env \<Rightarrow> track_data \<Rightarrow> system \<Rightarrow> doc_id \<times> system" where
  "createFlightTrack_store env trackData s =
     (let owner = (if track_data.userId trackData \<noteq> 0 then track_data.userId trackData
                   else track_data.telegramId trackData);
          newId = next_id s;
          track = \<lparr>track_id = newId,
                   flight_track.telegram_id = owner,
                   carrier_code = track_data.carrierCode trackData,
                   flight_number = track_data.flightNumber trackData,
                   flight_track.date = track_data.date trackData,
                   flight_track.origin = or_null (track_data.origin trackData),
                   flight_track.destination = or_null (track_data.destination trackData),
                   last_status = JSON_stringify
                     [(''status'', JStr ''SCHEDULED''),
                      (''departureTime'', JNull),
                      (''arrivalTime'', JNull),
                      (''terminal'', JNull),
                      (''gate'', JNull),
                      (''checked'', JStr (toISOString env (clock s)))],
                   flight_track.created_at = toISOString env (clock s),
                   active = True,
                   is_segment = isSegment trackData,
                   segment_index = (if isSegment trackData then segmentIndex trackData else None),
                   parent_route = (if isSegment trackData then parentRoute trackData else None),
                   flight_track.last_checked = None,
                   cancelled_at = None\<rparr>
      in (newId, s\<lparr>flight_tracks := flight_tracks s @ [track],
                   next_id := Suc (next_id s),
                   calls := calls s @ [TrackCreated newId]\<rparr>))"

definition getFlightTrack :: "doc_id \<Rightarrow> system \<Rightarrow> flight_track option" where
  "getFlightTrack trackId s = find (\<lambda>t. track_id t = trackId) (flight_tracks s)"

definition status_props :: "current_status \<Rightarrow> (string \<times> jv) list" where
  "status_props st =
     [(''flightDesignator'', current_status.flightDesignator st),
      (''departureAirport'', departureAirport st),
      (''arrivalAirport'', arrivalAirport st),
      (''scheduledDepartureTime'', scheduledDepartureTime st),
      (''scheduledArrivalTime'', scheduledArrivalTime st),
      (''actualDepartureTime'', actualDepartureTime st),
      (''actualArrivalTime'', actualArrivalTime st),
      (''terminal'', terminal st),
      (''gate'', gate st),
      (''status'', status st),
      (''checked'', checked st)]"



definition cancelFlightTrack :: "env \<Rightarrow> doc_id \<Rightarrow> user_id \<Rightarrow> system \<Rightarrow> bool \<times> system" where
  "cancelFlightTrack env trackId uid s =
     (let mine = (\<lambda>t. flight_track.telegram_id t = uid \<and> track_id t = trackId);
          anyones = (\<lambda>t. track_id t = trackId);
          cancel = (\<lambda>t. t\<lparr>active := False,
                            cancelled_at := Some (toISOString env (clock s))\<rparr>)
      in case find mine (flight_tracks s) of
           Some trackDoc \<Rightarrow>
             (True, s\<lparr>flight_tracks := update_first mine cancel (flight_tracks s)\<rparr>)
         | None \<Rightarrow>
             (case find anyones (flight_tracks s) of
                None \<Rightarrow> (False, s)
              | Some trackDoc \<Rightarrow>
                  (if flight_track.telegram_id trackDoc \<noteq> uid then (False, s)
                   else (True, s\<lparr>flight_tracks :=
                                   update_first anyones cancel (flight_tracks s)\<rparr>))))"

section \<open>Flight Tracker (services/flightTracker.js)\<close>


text \<open>The time value of \<open>new Date(v)\<close>; \<open>None\<close> is an invalid date.\<close>

fun new_Date :: "env \<Rightarrow> jv \<Rightarrow> timestamp option" where
  "new_Date env JUndefined = None"
| "new_Date env JNull = Some 0"
| "new_Date env (JBool b) = Some (if b then 1 else 0)"
| "new_Date env (JNum x) =
     (if \<bar>x\<bar> \<le> 8640000000000000 then Some (if x \<ge> 0 then \<lfloor>x\<rfloor> else \<lceil>x\<rceil>) else None)"
| "new_Date env (JStr txt) = parseDate env txt"
| "new_Date env (JObj kvs) = parseDate env ''[object Object]''"

definition timeChangedSignificantly :: "env \<Rightarrow> jv \<Rightarrow> jv \<Rightarrow> real \<Rightarrow> bool" where
  "timeChangedSignificantly env time1 time2 minutesThreshold =
     (if \<not> truthy time1 \<or> \<not> truthy time2 then False
      else
        (case (new_Date env time1, new_Date env time2) of
           (Some date1, Some date2) \<Rightarrow>
             (let diffMinutes = \<bar>real_of_int (date1 - date2) / (1000 * 60)\<bar>
              in diffMinutes > minutesThreshold)
         | _ \<Rightarrow> False))"

text \<open>\<open>None\<close> is \<open>NaN\<close> (the stored time stamp is not a date).\<close>

definition daysSinceLastCheck :: "env \<Rightarrow> timestamp \<Rightarrow> jv \<Rightarrow> real option" where
  "daysSinceLastCheck env now lastChecked =
     (if \<not> truthy lastChecked then Some 999
      else
        (case new_Date env lastChecked of
           None \<Rightarrow> None
         | Some lastCheck \<Rightarrow> Some (real_of_int (now - lastCheck) / (1000 * 60 * 60 * 24))))"

fun at_least :: "real option \<Rightarrow> real \<Rightarrow> bool" where
  "at_least None y = False"
| "at_least (Some x) y = (x \<ge> y)"

text \<open>The array \<open>significantChanges\<close>. Its elements are JavaScript values: the terminal and
  gate entries are \<open>false\<close> or the operand that \<open>&&\<close> returns.\<close>

definition significantChanges :: "env \<Rightarrow> timestamp \<Rightarrow> jv \<Rightarrow> current_status \<Rightarrow> jv list" where
  "significantChanges env now lastStatus currentStatus =
     [JBool (strict_neq (get_prop (current_status.flightDesignator currentStatus) ''carrierCode'')
                        (get_prop (get_prop lastStatus ''flightDesignator'') ''carrierCode'') \<or>
             strict_neq (get_prop (current_status.flightDesignator currentStatus) ''flightNumber'')
                        (get_prop (get_prop lastStatus ''flightDesignator'') ''flightNumber'')),
      JBool (timeChangedSignificantly env (scheduledDepartureTime currentStatus)
               (get_prop lastStatus ''scheduledDepartureTime'') 10),
      JBool (timeChangedSignificantly env (scheduledArrivalTime currentStatus)
               (get_prop lastStatus ''scheduledArrivalTime'') 10),
      js_and (strict_neq (terminal currentStatus) (get_prop lastStatus ''terminal''))
             (js_or (terminal currentStatus) (get_prop lastStatus ''terminal'')),
      js_and (strict_neq (gate currentStatus) (get_prop lastStatus ''gate''))
             (js_or (gate currentStatus) (get_prop lastStatus ''gate'')),
      JBool (strict_neq (status currentStatus) (get_prop lastStatus ''status'')),
      JBool (at_least (daysSinceLastCheck env now (get_prop lastStatus ''checked'')) 1)]"

text \<open>The Flight Tracker's \<open>shouldNotifyUser\<close>. Reading a property of \<open>null\<close> or
  \<open>undefined\<close> throws a \<open>TypeError\<close>.\<close>

definition shouldNotifyUser_track ::
  "env \<Rightarrow> timestamp \<Rightarrow> flight_track \<Rightarrow> current_status \<Rightarrow> error + bool" where
  "shouldNotifyUser_track env now track currentStatus =
     (if \<not> text_truthy (last_status track) then Inr True
      else
        (case JSON_parse (last_status track) of
           Inl e \<Rightarrow> Inr True
         | Inr lastStatus \<Rightarrow>
             (if nullish (current_status.flightDesignator currentStatus) \<or> nullish lastStatus
              then Inl TypeError
              else Inr (list_ex (\<lambda>change. change = JBool True)
                          (significantChanges env now lastStatus currentStatus)))))"



record segment =
  carrierCode :: string
  flightNumber :: string
  departure_at :: string
  departure_iataCode :: string
  arrival_iataCode :: string

record flight_data =
  carrierCode :: string
  flightNumber :: string
  date :: string
  origin :: "string option"
  destination :: "string option"
  segments :: "segment list"






section \<open>Airline names (index.js)\<close>














section \<open>An example environment\<close>

text \<open>A reader of UTC time stamps of the form \<open>YYYY-MM-DDTHH:MM:SSZ\<close>, which is how
  \<open>new Date\<close> reads such a text; any other text is an invalid date here.\<close>

fun digits :: "string \<Rightarrow> int option" where
  "digits [] = Some 0"
| "digits (c # cs) =
     (if CHR ''0'' \<le> c \<and> c \<le> CHR ''9''
      then map_option (\<lambda>r. (of_char c - 48) * 10 ^ length cs + r) (digits cs)
      else None)"

definition days_from_civil :: "int \<Rightarrow> int \<Rightarrow> int \<Rightarrow> int" where
  "days_from_civil y m d =
     (let y' = (if m \<le> 2 then y - 1 else y);
          era = y' div 400;
          yoe = y' - era * 400;
          mp = (if m > 2 then m - 3 else m + 9);
          doy = (153 * mp + 2) div 5 + d - 1;
          doe = yoe * 365 + yoe div 4 - yoe div 100 + doy
      in era * 146097 + doe - 719468)"

definition parse_utc :: "string \<Rightarrow> timestamp option" where
  "parse_utc txt =
     (if length txt = 20 \<and> txt ! 4 = CHR ''-'' \<and> txt ! 7 = CHR ''-'' \<and> txt ! 10 = CHR ''T'' \<and>
         txt ! 13 = CHR '':'' \<and> txt ! 16 = CHR '':'' \<and> txt ! 19 = CHR ''Z''
      then
        (case (digits (take 4 txt), digits (take 2 (drop 5 txt)), digits (take 2 (drop 8 txt)),
               digits (take 2 (drop 11 txt)), digits (take 2 (drop 14 txt)),
               digits (take 2 (drop 17 txt))) of
           (Some y, Some m, Some d, Some h, Some mi, Some sec) \<Rightarrow>
             (if 1 \<le> m \<and> m \<le> 12 \<and> 1 \<le> d \<and> d \<le> 31 \<and> h \<le> 23 \<and> mi \<le> 59 \<and> sec \<le> 59
              then Some ((((days_from_civil y m d * 24 + h) * 60 + mi) * 60 + sec) * 1000)
              else None)
         | _ \<Rightarrow> None)
      else None)"

definition example_env :: env where
  "example_env =
     \<lparr>searchFlights = (\<lambda>from to day back. Flights []),
      fetchSchedule = (\<lambda>carrier number day.
         Schedule [\<lparr>scheduled_flight.flightDesignator =
                      JObj [(''carrierCode'', JStr carrier), (''flightNumber'', JStr number)],
                    flightPoints =
                      [\<lparr>iataCode = JStr ''FRA'', departureTiming = JStr (day @ ''T10:00:00Z''),
                        arrivalTiming = JUndefined, arrivalTerminal = JUndefined,
                        arrivalGate = JUndefined\<rparr>,
                       \<lparr>iataCode = JStr ''JFK'', departureTiming = JUndefined,
                        arrivalTiming = JStr (day @ ''T18:30:00Z''),
                        arrivalTerminal = JStr ''1'', arrivalGate = JUndefined\<rparr>]\<rparr>]),
      parseDate = parse_utc,
      toISOString = (\<lambda>t. ''2024-12-24T12:00:00Z''),
      startOfLocalDay = (\<lambda>t. t)\<rparr>"

text \<open>An alert for a route, with a given target price and stored prices.\<close>

definition example_alert :: "doc_id \<Rightarrow> real \<Rightarrow> real option \<Rightarrow> real option \<Rightarrow> alert" where
  "example_alert n target cur low =
     \<lparr>alert.alert_id = n, alert.telegram_id = 7, alert.origin = ''FRA'',
      alert.destination = ''JFK'', departure_date = ''2024-12-25'', return_date = None,
      min_price = target, current_price = cur, lowest_price = low, is_active = True,
      alert.created_at = 0, alert.last_checked = None, alert.booking_url = None\<rparr>"

text \<open>An offer at a given price, a provider that returns given offers for every search, and a
  system whose store holds given alerts and tracks.\<close>

definition example_offer :: "real \<Rightarrow> offer" where
  "example_offer p = \<lparr>offer.price = p, offer.airline = ''LH'', bookingUrl = None\<rparr>"

definition offers_env :: "search_result \<Rightarrow> env" where
  "offers_env found = example_env\<lparr>searchFlights := (\<lambda>from to day back. found)\<rparr>"

definition example_system :: "alert list \<Rightarrow> flight_track list \<Rightarrow> system" where
  "example_system alerts tracks =
     \<lparr>flight_alerts = alerts, price_history = [], flight_tracks = tracks, outbox = [],
      isRunning = False, clock = 1735041600000, next_id = 100, timers = [], calls = []\<rparr>"

text \<open>An active track of flight LH 400, stored under a given user, with a given last
  status.\<close>

definition example_track :: "doc_id \<Rightarrow> user_id \<Rightarrow> json_text \<Rightarrow> flight_track" where
  "example_track n uid snapshot =
     \<lparr>track_id = n, flight_track.telegram_id = uid, carrier_code = ''LH'',
      flight_number = ''400'', flight_track.date = ''2024-12-25'',
      flight_track.origin = Some ''FRA'', flight_track.destination = Some ''JFK'',
      last_status = snapshot, flight_track.created_at = ''2024-12-24T12:00:00Z'',
      active = True, is_segment = False, segment_index = None, parent_route = None,
      flight_track.last_checked = None, cancelled_at = None\<rparr>"

text \<open>A status of flight LH 400 as \<open>getFlightStatus\<close> builds it, with given scheduled
  departure and check times.\<close>

definition example_status :: "string \<Rightarrow> string \<Rightarrow> current_status" where
  "example_status departs checkedAt =
     \<lparr>current_status.flightDesignator =
        JObj [(''carrierCode'', JStr ''LH''), (''flightNumber'', JStr ''400'')],
      departureAirport = JStr ''FRA'', arrivalAirport = JStr ''JFK'',
      scheduledDepartureTime = JStr departs,
      scheduledArrivalTime = JStr ''2024-12-25T18:30:00Z'',
      actualDepartureTime = JStr departs,
      actualArrivalTime = JStr ''2024-12-25T18:30:00Z'',
      terminal = JStr ''1'', gate = JNull, status = JStr ''SCHEDULED'',
      checked = JStr checkedAt\<rparr>"

section \<open>The decision table as the specification words it\<close>



section \<open>The snapshot stored with a new track\<close>

text \<open>The object that the store's \<open>createFlightTrack\<close> serializes into \<open>last_status\<close>.\<close>

definition default_snapshot :: "string \<Rightarrow> jv" where
  "default_snapshot createdAt =
     JObj [(''status'', JStr ''SCHEDULED''), (''departureTime'', JNull),
           (''arrivalTime'', JNull), (''terminal'', JNull), (''gate'', JNull),
           (''checked'', JStr createdAt)]"




section \<open>The invariant of the stored prices\<close>


section \<open>Lemmas on the store\<close>

lemma find_update_first_same:
  "find P xs = Some a \<Longrightarrow> Q a \<Longrightarrow> (\<And>x. Q x \<Longrightarrow> P x) \<Longrightarrow> P (f a)
   \<Longrightarrow> find P (update_first Q f xs) = Some (f a)"
  by (induction xs) (auto split: if_splits)

lemma find_update_first_other:
  "(\<And>x. Q x \<Longrightarrow> \<not> P x \<and> \<not> P (f x)) \<Longrightarrow> find P (update_first Q f xs) = find P xs"
  by (induction xs) auto


lemma map_update_first:
  "(\<And>x. g (f x) = g x) \<Longrightarrow> map g (update_first Q f xs) = map g xs"
  by (induction xs) auto

lemma length_update_first [simp]: "length (update_first Q f xs) = length xs"
  by (induction xs) auto

lemma find_some_holds: "find P xs = Some a \<Longrightarrow> P a \<and> a \<in> set xs"
  by (induction xs) (auto split: if_splits)

lemma updateAlertCheck_null:
  "getAlert alertId s = Some a \<Longrightarrow>
   updateAlertCheck alertId None s =
     Inr (s\<lparr>flight_alerts :=
              update_first (\<lambda>b. alert.alert_id b = alertId)
                (\<lambda>b. b\<lparr>alert.last_checked := Some (clock s)\<rparr>) (flight_alerts s)\<rparr>)"
  by (simp add: updateAlertCheck_def getAlert_def)

lemma checkSingleAlert_no_offers:
  assumes "getAlert alertId s = Some a"
    and "searchFlights env (alert.origin a) (alert.destination a) (departure_date a)
           (return_date a) = ApiError \<or>
         searchFlights env (alert.origin a) (alert.destination a) (departure_date a)
           (return_date a) = Flights []"
  shows "checkSingleAlert env alertId s =
     s\<lparr>flight_alerts :=
         update_first (\<lambda>b. alert.alert_id b = alertId)
           (\<lambda>b. b\<lparr>alert.last_checked := Some (clock s)\<rparr>) (flight_alerts s)\<rparr>"
  using assms by (auto simp: checkSingleAlert_def updateAlertCheck_null)

lemma checkSingleAlert_priced:
  assumes "getAlert alertId s = Some a"
    and "searchFlights env (alert.origin a) (alert.destination a) (departure_date a)
           (return_date a) = Flights (f # fs)"
  shows "checkSingleAlert env alertId s =
     (let new = snd (cheapest f (f # fs));
          d = shouldNotifyUser a new (current_price a);
          s1 = s\<lparr>flight_alerts :=
                   update_first (\<lambda>b. alert.telegram_id b = alert.telegram_id a \<and>
                                      alert.alert_id b = alertId)
                     (repriced a new (clock s)) (flight_alerts s),
                 price_history := price_history s @
                   [\<lparr>price_history_entry.alert_id = alertId, price_history_entry.price = new,
                     price_history_entry.airline = None,
                     price_history_entry.booking_url = None, timestamp = clock s\<rparr>]\<rparr>
      in if notify d
         then s1\<lparr>outbox := outbox s @
                   [PriceAlertMsg (alert.telegram_id a) (alert.alert_id a) (reason d)
                      (fst (cheapest f (f # fs))) (current_price a)]\<rparr>
         else s1)"
  using assms
  by (simp add: checkSingleAlert_def updateAlertPrice_def addPriceHistory_def
      sendPriceAlert_def Let_def repriced_def split: prod.splits)


subsection \<open>The notification decision of a price check\<close>





subsection \<open>The first check of an alert\<close>

text \<open>
  Claim C6, as amended. For an alert with no stored current price, \<open>checkSingleAlert\<close> with
  any successfully fetched price sends a notification; its reason is \<open>first_check\<close> when the
  new price is above the target, and \<open>target_reached\<close> when the new price is at most the
  target, because that rule is tested first.
\<close>

theorem first_check_reason:
  assumes "getAlert alertId s = Some a"
    and "current_price a = None"
    and "searchFlights env (alert.origin a) (alert.destination a) (departure_date a)
           (return_date a) = Flights (f # fs)"
  shows "outbox (checkSingleAlert env alertId s) =
           outbox s @
           [PriceAlertMsg (alert.telegram_id a) (alert.alert_id a)
              (Some (if snd (cheapest f (f # fs)) \<le> min_price a then target_reached
                     else first_check))
              (fst (cheapest f (f # fs))) None]"
  using assms
  by (simp add: checkSingleAlert_priced Let_def shouldNotifyUser_def)

theorem first_check_reason_witness:
  "outbox (checkSingleAlert (offers_env (Flights [example_offer 450])) 1
       (example_system [example_alert 1 400 None None] [])) =
     [PriceAlertMsg 7 1 (Some first_check) (example_offer 450) None]"
  using first_check_reason
          [of 1 "example_system [example_alert 1 400 None None] []"
              "example_alert 1 400 None None" "offers_env (Flights [example_offer 450])"
              "example_offer 450" "[]"]
  by (simp add: getAlert_def example_system_def example_alert_def offers_env_def
      example_offer_def cheapest_def)

text \<open>
  The claim as stated (``any new price triggers \<open>first_check\<close>'') fails for a new price at or
  below the target: target 400, no stored price, new price 395.
\<close>

theorem first_check_counterexample:
  "current_price (example_alert 1 400 None None) = None \<and>
   outbox (checkSingleAlert (offers_env (Flights [example_offer 395])) 1
       (example_system [example_alert 1 400 None None] [])) =
     [PriceAlertMsg 7 1 (Some target_reached) (example_offer 395) None]"
  by (simp add: checkSingleAlert_def getAlert_def example_system_def example_alert_def
      offers_env_def example_offer_def cheapest_def shouldNotifyUser_def updateAlertPrice_def
      addPriceHistory_def sendPriceAlert_def Let_def)

subsection \<open>The running minimum\<close>









subsection \<open>A failed or empty search\<close>

text \<open>
  Claim C4. If the offer search for an existing alert fails or returns no offers,
  \<open>checkSingleAlert\<close> changes nothing but the \<open>last_checked\<close> time stamp of that alert:
  the current and lowest prices of all alerts stay as they are, no price-history entry is
  appended and no message is sent.
\<close>

theorem failed_search_frame:
  assumes "getAlert alertId s = Some a"
    and "searchFlights env (alert.origin a) (alert.destination a) (departure_date a)
           (return_date a) = ApiError \<or>
         searchFlights env (alert.origin a) (alert.destination a) (departure_date a)
           (return_date a) = Flights []"
    and "s' = checkSingleAlert env alertId s"
  shows "getAlert alertId s' = Some (a\<lparr>alert.last_checked := Some (clock s)\<rparr>) \<and>
         (\<forall>other. other \<noteq> alertId \<longrightarrow> getAlert other s' = getAlert other s) \<and>
         map current_price (flight_alerts s') = map current_price (flight_alerts s) \<and>
         map lowest_price (flight_alerts s') = map lowest_price (flight_alerts s) \<and>
         price_history s' = price_history s \<and>
         outbox s' = outbox s \<and>
         s' = s\<lparr>flight_alerts := flight_alerts s'\<rparr>"
proof -
  have s': "s' = s\<lparr>flight_alerts :=
         update_first (\<lambda>b. alert.alert_id b = alertId)
           (\<lambda>b. b\<lparr>alert.last_checked := Some (clock s)\<rparr>) (flight_alerts s)\<rparr>"
    unfolding assms(3) using assms(1,2) by (rule checkSingleAlert_no_offers)
  from assms(1) have found: "find (\<lambda>b. alert.alert_id b = alertId) (flight_alerts s) = Some a"
    by (simp add: getAlert_def)
  then have id: "alert.alert_id a = alertId"
    by (auto dest: find_some_holds)
  have "getAlert alertId s' = Some (a\<lparr>alert.last_checked := Some (clock s)\<rparr>)"
    unfolding s' using found id by (simp add: getAlert_def find_update_first_same)
  moreover have "\<forall>other. other \<noteq> alertId \<longrightarrow> getAlert other s' = getAlert other s"
    unfolding s' getAlert_def by (auto intro!: find_update_first_other)
  moreover have "map current_price (flight_alerts s') = map current_price (flight_alerts s)"
    unfolding s' by (simp add: map_update_first)
  moreover have "map lowest_price (flight_alerts s') = map lowest_price (flight_alerts s)"
    unfolding s' by (simp add: map_update_first)
  moreover have "price_history s' = price_history s" "outbox s' = outbox s"
    "s' = s\<lparr>flight_alerts := flight_alerts s'\<rparr>"
    unfolding s' by simp_all
  ultimately show ?thesis by blast
qed

theorem failed_search_frame_witness:
  "getAlert 1 (checkSingleAlert (offers_env ApiError) 1
       (example_system [example_alert 1 100 (Some 500) (Some 450)] [])) =
     Some ((example_alert 1 100 (Some 500) (Some 450))
             \<lparr>alert.last_checked := Some 1735041600000\<rparr>) \<and>
   price_history (checkSingleAlert (offers_env ApiError) 1
       (example_system [example_alert 1 100 (Some 500) (Some 450)] [])) = [] \<and>
   outbox (checkSingleAlert (offers_env (Flights [])) 1
       (example_system [example_alert 1 100 (Some 500) (Some 450)] [])) = []"
  using failed_search_frame
          [of 1 "example_system [example_alert 1 100 (Some 500) (Some 450)] []"
              "example_alert 1 100 (Some 500) (Some 450)" "offers_env ApiError", OF _ _ refl]
        failed_search_frame
          [of 1 "example_system [example_alert 1 100 (Some 500) (Some 450)] []"
              "example_alert 1 100 (Some 500) (Some 450)" "offers_env (Flights [])", OF _ _ refl]
  by (simp add: getAlert_def example_system_def example_alert_def offers_env_def)


subsection \<open>The single-flight guard of a cycle\<close>

lemma checkSingleAlert_isRunning [simp]:
  "isRunning (checkSingleAlert env alertId s) = isRunning s"
  by (simp add: checkSingleAlert_def updateAlertCheck_def updateAlertPrice_def
      addPriceHistory_def sendPriceAlert_def Let_def
      split: option.splits search_result.splits list.splits prod.splits)

lemma check_each_isRunning:
  "st \<in> set (check_each env alerts s) \<Longrightarrow> isRunning (snd st) = isRunning s"
proof (induction alerts arbitrary: s)
  case Nil
  then show ?case by simp
next
  case (Cons a alerts)
  let ?s1 = "checkSingleAlert env (alert.alert_id a) s"
  let ?s2 = "sleep 2000 ?s1"
  have same: "isRunning ?s1 = isRunning s" "isRunning ?s2 = isRunning s"
    by (simp_all add: sleep_def)
  from Cons.prems
  consider "snd st = ?s1" | "snd st = ?s2" | "st \<in> set (check_each env alerts ?s2)"
    by (auto simp: Let_def)
  then show ?case
  proof cases
    case 3
    then show ?thesis using Cons.IH [of ?s2] same by simp
  qed (simp_all only: same)
qed

lemma cycle_body_isRunning:
  "st \<in> set (cycle_body env fault s0) \<Longrightarrow> isRunning (snd st) = isRunning s0"
  by (auto simp: cycle_body_def cleanupOldAlerts_def getActiveAlerts_def Let_def
      dest: check_each_isRunning split: if_splits)

text \<open>
  Claim C5. \<open>checkAllAlerts_steps\<close> lists the states of a call of \<open>checkAllAlerts\<close>, one
  after each step. A call that finds the running flag set takes no step (no clean-up, no
  fetch, no single-alert check) and leaves the state as it is. A call that finds the flag
  clear starts a cycle; the flag is set in every state of the cycle before the last one, so
  a second call made from any of these states is again a no-op; the last step clears the
  flag, also when the clean-up or the fetch of the alerts fails.
\<close>

theorem checkAllAlerts_single_flight:
  assumes "steps = checkAllAlerts_steps env fault s"
    and "s' = checkAllAlerts env fault s"
  shows "(isRunning s \<longrightarrow> steps = [] \<and> s' = s) \<and>
         (\<not> isRunning s \<longrightarrow>
            steps \<noteq> [] \<and> fst (hd steps) = CycleStarted \<and>
            last steps = (CycleFinished, s') \<and> \<not> isRunning s' \<and>
            (\<forall>st \<in> set (butlast steps).
               isRunning (snd st) \<and>
               checkAllAlerts_steps env2 fault2 (snd st) = [] \<and>
               checkAllAlerts env2 fault2 (snd st) = snd st))"
proof (cases "isRunning s")
  case True
  then show ?thesis
    by (simp add: assms checkAllAlerts_def checkAllAlerts_steps_def)
next
  case False
  let ?s0 = "s\<lparr>isRunning := True\<rparr>"
  let ?body = "(CycleStarted, ?s0) # cycle_body env fault ?s0"
  from False
  have steps: "steps = ?body @ [(CycleFinished, (snd (last ?body))\<lparr>isRunning := False\<rparr>)]"
    by (simp add: assms checkAllAlerts_steps_def Let_def)
  have s': "s' = (snd (last ?body))\<lparr>isRunning := False\<rparr>"
    using False by (simp add: assms checkAllAlerts_def checkAllAlerts_steps_def Let_def)
  have running: "isRunning (snd st)" if "st \<in> set ?body" for st
    using that cycle_body_isRunning [of st env fault ?s0] by auto
  have first: "steps \<noteq> []" "fst (hd steps) = CycleStarted"
    by (simp_all add: steps)
  have final: "last steps = (CycleFinished, s')" "\<not> isRunning s'"
    by (simp_all add: steps s')
  have during: "\<forall>st \<in> set (butlast steps).
               isRunning (snd st) \<and>
               checkAllAlerts_steps env2 fault2 (snd st) = [] \<and>
               checkAllAlerts env2 fault2 (snd st) = snd st"
  proof
    fix st assume "st \<in> set (butlast steps)"
    then have "st \<in> set ?body"
      by (simp add: steps butlast_append)
    then have "isRunning (snd st)" by (rule running)
    then show "isRunning (snd st) \<and>
               checkAllAlerts_steps env2 fault2 (snd st) = [] \<and>
               checkAllAlerts env2 fault2 (snd st) = snd st"
      by (simp add: checkAllAlerts_def checkAllAlerts_steps_def)
  qed
  from False first final during show ?thesis by blast
qed


theorem checkAllAlerts_single_flight_witness:
  "checkAllAlerts_steps (offers_env ApiError) NoFault
       ((example_system [] [])\<lparr>isRunning := True\<rparr>) = [] \<and>
   checkAllAlerts (offers_env ApiError) NoFault ((example_system [] [])\<lparr>isRunning := True\<rparr>) =
     (example_system [] [])\<lparr>isRunning := True\<rparr> \<and>
   checkAllAlerts_steps (offers_env ApiError) CleanupFails (example_system [] []) \<noteq> [] \<and>
   isRunning (checkAllAlerts (offers_env ApiError) CleanupFails (example_system [] [])) = False"
  using checkAllAlerts_single_flight
          [OF refl refl, of "(example_system [] [])\<lparr>isRunning := True\<rparr>"
             "offers_env ApiError" NoFault "offers_env ApiError" NoFault]
        checkAllAlerts_single_flight
          [OF refl refl, of "example_system [] []" "offers_env ApiError" CleanupFails
             "offers_env ApiError" NoFault]
  by (simp add: example_system_def)

subsection \<open>Cancellation\<close>

lemma update_first_split:
  "find Q xs = Some a \<Longrightarrow>
   \<exists>pre post. xs = pre @ a # post \<and> update_first Q f xs = pre @ f a # post \<and>
              (\<forall>x \<in> set pre. \<not> Q x)"
proof (induction xs)
  case Nil
  then show ?case by simp
next
  case (Cons x xs)
  show ?case
  proof (cases "Q x")
    case True
    with Cons.prems have "x = a" by simp
    with True have "x # xs = [] @ a # xs \<and> update_first Q f (x # xs) = [] @ f a # xs \<and>
        (\<forall>y \<in> set []. \<not> Q y)"
      by simp
    then show ?thesis by blast
  next
    case False
    with Cons.prems have "find Q xs = Some a" by simp
    from Cons.IH [OF this] obtain pre post where
      "xs = pre @ a # post" "update_first Q f xs = pre @ f a # post" "\<forall>y \<in> set pre. \<not> Q y"
      by blast
    with False have "x # xs = (x # pre) @ a # post \<and>
        update_first Q f (x # xs) = (x # pre) @ f a # post \<and> (\<forall>y \<in> set (x # pre). \<not> Q y)"
      by simp
    then show ?thesis by blast
  qed
qed

text \<open>
  Claim C7. When no track (alert) with the given id is stored under the requesting user,
  \<open>cancelFlightTrack\<close> returns \<open>false\<close> and \<open>cancelAlert\<close> throws, and the state is
  unchanged. When the requesting user owns a document with that id, the cancellation
  succeeds and changes exactly that document: the track gets \<open>active = false\<close> and a
  cancellation time stamp, the alert gets \<open>is_active = false\<close>; no document is deleted.
\<close>

theorem cancel_requires_owner:
  "((\<forall>t \<in> set (flight_tracks s). track_id t = trackId \<longrightarrow> flight_track.telegram_id t \<noteq> uid) \<longrightarrow>
      cancelFlightTrack env trackId uid s = (False, s)) \<and>
   ((\<forall>a \<in> set (flight_alerts s). alert.alert_id a = alertId \<longrightarrow> alert.telegram_id a \<noteq> uid) \<longrightarrow>
      fst (cancelAlert alertId uid s) \<noteq> None \<and> snd (cancelAlert alertId uid s) = s) \<and>
   (\<forall>t. find (\<lambda>t. flight_track.telegram_id t = uid \<and> track_id t = trackId) (flight_tracks s)
          = Some t \<longrightarrow>
      (\<exists>pre post.
         flight_tracks s = pre @ t # post \<and>
         cancelFlightTrack env trackId uid s =
           (True, s\<lparr>flight_tracks :=
                      pre @ t\<lparr>active := False,
                               cancelled_at := Some (toISOString env (clock s))\<rparr> # post\<rparr>))) \<and>
   (\<forall>a. find (\<lambda>a. alert.telegram_id a = uid \<and> alert.alert_id a = alertId) (flight_alerts s)
          = Some a \<longrightarrow>
      (\<exists>pre post.
         flight_alerts s = pre @ a # post \<and>
         cancelAlert alertId uid s =
           (None, s\<lparr>flight_alerts := pre @ a\<lparr>is_active := False\<rparr> # post\<rparr>)))"
proof (intro conjI allI impI)
  assume foreign: "\<forall>t \<in> set (flight_tracks s). track_id t = trackId \<longrightarrow>
                     flight_track.telegram_id t \<noteq> uid"
  then have none: "find (\<lambda>t. flight_track.telegram_id t = uid \<and> track_id t = trackId)
                     (flight_tracks s) = None"
    by (auto simp: find_None_iff)
  show "cancelFlightTrack env trackId uid s = (False, s)"
  proof (cases "find (\<lambda>t. track_id t = trackId) (flight_tracks s)")
    case None
    with none show ?thesis by (simp add: cancelFlightTrack_def)
  next
    case (Some t)
    then have "track_id t = trackId" "t \<in> set (flight_tracks s)"
      by (auto dest: find_some_holds)
    with foreign have "flight_track.telegram_id t \<noteq> uid" by blast
    with none Some show ?thesis by (simp add: cancelFlightTrack_def)
  qed
next
  assume foreign: "\<forall>a \<in> set (flight_alerts s). alert.alert_id a = alertId \<longrightarrow>
                     alert.telegram_id a \<noteq> uid"
  then have none: "find (\<lambda>a. alert.telegram_id a = uid \<and> alert.alert_id a = alertId)
                     (flight_alerts s) = None"
    by (auto simp: find_None_iff)
  show "fst (cancelAlert alertId uid s) \<noteq> None"
    and "snd (cancelAlert alertId uid s) = s"
  proof -
    have "fst (cancelAlert alertId uid s) \<noteq> None \<and> snd (cancelAlert alertId uid s) = s"
    proof (cases "find (\<lambda>a. alert.alert_id a = alertId) (flight_alerts s)")
      case None
      with none show ?thesis by (simp add: cancelAlert_def)
    next
      case (Some a)
      then have "alert.alert_id a = alertId" "a \<in> set (flight_alerts s)"
        by (auto dest: find_some_holds)
      with foreign have "alert.telegram_id a \<noteq> uid" by blast
      with none Some show ?thesis by (simp add: cancelAlert_def)
    qed
    then show "fst (cancelAlert alertId uid s) \<noteq> None"
      and "snd (cancelAlert alertId uid s) = s"
      by simp_all
  qed
next
  fix t
  assume mine: "find (\<lambda>t. flight_track.telegram_id t = uid \<and> track_id t = trackId)
                  (flight_tracks s) = Some t"
  from update_first_split [OF mine] obtain pre post where
    "flight_tracks s = pre @ t # post"
    "update_first (\<lambda>t. flight_track.telegram_id t = uid \<and> track_id t = trackId)
       (\<lambda>t. t\<lparr>active := False, cancelled_at := Some (toISOString env (clock s))\<rparr>)
       (flight_tracks s) =
     pre @ t\<lparr>active := False, cancelled_at := Some (toISOString env (clock s))\<rparr> # post"
    by blast
  with mine show "\<exists>pre post.
         flight_tracks s = pre @ t # post \<and>
         cancelFlightTrack env trackId uid s =
           (True, s\<lparr>flight_tracks :=
                      pre @ t\<lparr>active := False,
                               cancelled_at := Some (toISOString env (clock s))\<rparr> # post\<rparr>)"
    by (auto simp: cancelFlightTrack_def)
next
  fix a
  assume mine: "find (\<lambda>a. alert.telegram_id a = uid \<and> alert.alert_id a = alertId)
                  (flight_alerts s) = Some a"
  from update_first_split [OF mine] obtain pre post where
    "flight_alerts s = pre @ a # post"
    "update_first (\<lambda>a. alert.telegram_id a = uid \<and> alert.alert_id a = alertId)
       (\<lambda>a. a\<lparr>is_active := False\<rparr>) (flight_alerts s) =
     pre @ a\<lparr>is_active := False\<rparr> # post"
    by blast
  with mine show "\<exists>pre post.
         flight_alerts s = pre @ a # post \<and>
         cancelAlert alertId uid s =
           (None, s\<lparr>flight_alerts := pre @ a\<lparr>is_active := False\<rparr> # post\<rparr>)"
    by (auto simp: cancelAlert_def)
qed


theorem cancel_requires_owner_witness:
  "cancelFlightTrack example_env 5 8
     (example_system [example_alert 1 100 None None] [example_track 5 7 NoText]) =
     (False, example_system [example_alert 1 100 None None] [example_track 5 7 NoText]) \<and>
   snd (cancelAlert 1 8
     (example_system [example_alert 1 100 None None] [example_track 5 7 NoText])) =
     example_system [example_alert 1 100 None None] [example_track 5 7 NoText] \<and>
   cancelFlightTrack example_env 5 7
     (example_system [example_alert 1 100 None None] [example_track 5 7 NoText]) =
     (True, example_system [example_alert 1 100 None None]
        [(example_track 5 7 NoText)\<lparr>active := False,
            cancelled_at := Some ''2024-12-24T12:00:00Z''\<rparr>]) \<and>
   cancelAlert 1 7
     (example_system [example_alert 1 100 None None] [example_track 5 7 NoText]) =
     (None, example_system [(example_alert 1 100 None None)\<lparr>is_active := False\<rparr>]
        [example_track 5 7 NoText])"
  using cancel_requires_owner
          [of "example_system [example_alert 1 100 None None] [example_track 5 7 NoText]"
              5 8 example_env 1]
        cancel_requires_owner
          [of "example_system [example_alert 1 100 None None] [example_track 5 7 NoText]"
              5 7 example_env 1]
  by (auto simp: example_system_def example_alert_def example_track_def example_env_def
      Cons_eq_append_conv)


subsection \<open>Airline names\<close>






subsection \<open>Schedule changes\<close>

lemma map_of_filter_defined:
  "distinct (map fst kvs) \<Longrightarrow>
   map_of (filter (\<lambda>kv. snd kv \<noteq> JUndefined) kvs) k =
     (case map_of kvs k of
        None \<Rightarrow> None
      | Some v \<Rightarrow> if v = JUndefined then None else Some v)"
proof (induction kvs)
  case Nil
  then show ?case by simp
next
  case (Cons kv kvs)
  obtain k' v where kv: "kv = (k', v)" by (cases kv)
  from Cons.prems kv have fresh: "map_of kvs k' = None"
    by (simp add: map_of_eq_None_iff)
  from Cons.prems have IH: "map_of (filter (\<lambda>kv. snd kv \<noteq> JUndefined) kvs) k =
     (case map_of kvs k of None \<Rightarrow> None | Some v \<Rightarrow> if v = JUndefined then None else Some v)"
    by (intro Cons.IH) simp
  show ?case
    using IH fresh by (auto simp: kv)
qed

lemma get_prop_stringified:
  "distinct (map fst kvs) \<Longrightarrow>
   get_prop (JObj (filter (\<lambda>kv. snd kv \<noteq> JUndefined) kvs)) k = get_prop (JObj kvs) k"
  by (simp add: map_of_filter_defined split: option.splits)

lemma distinct_status_props: "distinct (map fst (status_props st))"
  by (simp add: status_props_def)

lemma stored_status_fields:
  "get_prop (JObj (status_props st)) ''flightDesignator'' = current_status.flightDesignator st"
  "get_prop (JObj (status_props st)) ''scheduledDepartureTime'' = scheduledDepartureTime st"
  "get_prop (JObj (status_props st)) ''scheduledArrivalTime'' = scheduledArrivalTime st"
  "get_prop (JObj (status_props st)) ''terminal'' = terminal st"
  "get_prop (JObj (status_props st)) ''gate'' = gate st"
  "get_prop (JObj (status_props st)) ''status'' = status st"
  "get_prop (JObj (status_props st)) ''checked'' = checked st"
  by (simp_all add: status_props_def)

lemma strict_neq_same: "(\<forall>kvs. v \<noteq> JObj kvs) \<Longrightarrow> \<not> strict_neq v v"
  by (cases v) simp_all

lemma unchanged_never_true: "js_and (strict_neq v v) (js_or v v) \<noteq> JBool True"
  by (cases v) (simp_all add: js_and_def js_or_def)

lemma same_time_not_changed: "\<not> timeChangedSignificantly env t t m \<or> m < 0"
  by (auto simp: timeChangedSignificantly_def split: option.splits)

lemma unchanged_status_decision:
  assumes stored: "last_status track = JSON_stringify (status_props prev)"
    and same: "current_status.flightDesignator cur = current_status.flightDesignator prev"
              "terminal cur = terminal prev" "gate cur = gate prev" "status cur = status prev"
    and fd: "\<not> nullish (current_status.flightDesignator prev)"
    and prim: "\<forall>kvs. get_prop (current_status.flightDesignator prev) ''carrierCode'' \<noteq> JObj kvs \<and>
                     get_prop (current_status.flightDesignator prev) ''flightNumber'' \<noteq> JObj kvs \<and>
                     status prev \<noteq> JObj kvs"
    and recent: "\<not> at_least (daysSinceLastCheck env now (checked prev)) 1"
  shows "shouldNotifyUser_track env now track cur =
           Inr (timeChangedSignificantly env (scheduledDepartureTime cur)
                  (scheduledDepartureTime prev) 10 \<or>
                timeChangedSignificantly env (scheduledArrivalTime cur)
                  (scheduledArrivalTime prev) 10)"
proof -
  let ?last = "JObj (filter (\<lambda>kv. snd kv \<noteq> JUndefined) (status_props prev))"
  have parse: "JSON_parse (last_status track) = Inr ?last" "text_truthy (last_status track)"
    by (simp_all add: stored JSON_stringify_def)
  have fields: "get_prop ?last k = get_prop (JObj (status_props prev)) k" for k
    by (rule get_prop_stringified [OF distinct_status_props])
  from prim have equal:
    "\<not> strict_neq (get_prop (current_status.flightDesignator prev) ''carrierCode'')
                  (get_prop (current_status.flightDesignator prev) ''carrierCode'')"
    "\<not> strict_neq (get_prop (current_status.flightDesignator prev) ''flightNumber'')
                  (get_prop (current_status.flightDesignator prev) ''flightNumber'')"
    "\<not> strict_neq (status prev) (status prev)"
    by (simp_all add: strict_neq_same)
  show ?thesis
    unfolding shouldNotifyUser_track_def
    using fd recent equal unchanged_never_true [of "terminal prev"]
      unchanged_never_true [of "gate prev"]
    by (simp add: parse same significantChanges_def fields stored_status_fields
        del: get_prop.simps)
qed

lemma minutes_threshold:
  "(\<bar>real_of_int x / (1000 * 60)\<bar> > 10) = (\<bar>x\<bar> > 10 * 60 * 1000)"
proof -
  have "\<bar>real_of_int x / (1000 * 60)\<bar> = real_of_int \<bar>x\<bar> / 60000"
    by simp
  also have "(\<dots> > 10) = (real_of_int \<bar>x\<bar> > 600000)"
    by (simp add: field_simps)
  also have "\<dots> = (\<bar>x\<bar> > 600000)"
    by linarith
  finally show ?thesis by simp
qed

lemma shifted_time:
  assumes "t1 \<noteq> []" "t2 \<noteq> []" "parseDate env t1 = Some d1" "parseDate env t2 = Some d2"
  shows "timeChangedSignificantly env (JStr t2) (JStr t1) 10 = (\<bar>d2 - d1\<bar> > 10 * 60 * 1000)"
  using assms minutes_threshold [of "d2 - d1"]
  by (simp add: timeChangedSignificantly_def)

lemma recently_checked:
  assumes "ct \<noteq> []" "parseDate env ct = Some t0" "now - t0 < 24 * 60 * 60 * 1000"
  shows "\<not> at_least (daysSinceLastCheck env now (JStr ct)) 1"
  using assms by (simp add: daysSinceLastCheck_def field_simps)

text \<open>
  Claim C2. Let the track hold the stored status \<open>prev\<close> (designator, terminal, gate and
  status of the new fetch are the same, and the stored check is less than 24 hours old).
  If only the scheduled departure time (or only the scheduled arrival time) differs,
  \<open>shouldNotifyUser\<close> returns \<open>true\<close> exactly when the two times are more than ten minutes
  apart. In the example of the specification, a stored departure at 10:00 and a new
  departure at 10:05 give no notification, a new departure at 10:15 gives one.
\<close>

theorem schedule_shift_threshold:
  assumes stored: "last_status track = JSON_stringify (status_props prev)"
    and same: "current_status.flightDesignator cur = current_status.flightDesignator prev"
              "terminal cur = terminal prev" "gate cur = gate prev" "status cur = status prev"
    and fd: "\<not> nullish (current_status.flightDesignator prev)"
    and prim: "\<forall>kvs. get_prop (current_status.flightDesignator prev) ''carrierCode'' \<noteq> JObj kvs \<and>
                     get_prop (current_status.flightDesignator prev) ''flightNumber'' \<noteq> JObj kvs \<and>
                     status prev \<noteq> JObj kvs"
    and recent: "checked prev = JStr ct" "ct \<noteq> []" "parseDate env ct = Some t0"
                "now - t0 < 24 * 60 * 60 * 1000"
    and times: "t1 \<noteq> []" "t2 \<noteq> []" "parseDate env t1 = Some d1" "parseDate env t2 = Some d2"
  shows "(scheduledDepartureTime prev = JStr t1 \<and> scheduledDepartureTime cur = JStr t2 \<and>
          scheduledArrivalTime cur = scheduledArrivalTime prev \<longrightarrow>
            shouldNotifyUser_track env now track cur = Inr (\<bar>d2 - d1\<bar> > 10 * 60 * 1000)) \<and>
         (scheduledArrivalTime prev = JStr t1 \<and> scheduledArrivalTime cur = JStr t2 \<and>
          scheduledDepartureTime cur = scheduledDepartureTime prev \<longrightarrow>
            shouldNotifyUser_track env now track cur = Inr (\<bar>d2 - d1\<bar> > 10 * 60 * 1000))"
proof -
  have quiet: "\<not> at_least (daysSinceLastCheck env now (checked prev)) 1"
    using recent by (simp add: recently_checked)
  have still: "\<not> timeChangedSignificantly env v v 10" for v
    using same_time_not_changed [of env v 10] by simp
  show ?thesis
    using unchanged_status_decision [OF stored same fd prim quiet] still
      shifted_time [OF times]
    by simp
qed

lemma example_times:
  "parse_utc ''2024-12-24T12:00:00Z'' = Some 1735041600000"
  "parse_utc ''2024-12-25T10:00:00Z'' = Some 1735120800000"
  "parse_utc ''2024-12-25T10:05:00Z'' = Some 1735121100000"
  "parse_utc ''2024-12-25T10:15:00Z'' = Some 1735121700000"
  by code_simp+

theorem schedule_shift_threshold_witness:
  "shouldNotifyUser_track example_env 1735045200000
     (example_track 5 7
        (JSON_stringify (status_props
           (example_status ''2024-12-25T10:00:00Z'' ''2024-12-24T12:00:00Z''))))
     (example_status ''2024-12-25T10:05:00Z'' ''2024-12-24T13:00:00Z'') = Inr False \<and>
   shouldNotifyUser_track example_env 1735045200000
     (example_track 5 7
        (JSON_stringify (status_props
           (example_status ''2024-12-25T10:00:00Z'' ''2024-12-24T12:00:00Z''))))
     (example_status ''2024-12-25T10:15:00Z'' ''2024-12-24T13:00:00Z'') = Inr True"
proof -
  let ?prev = "example_status ''2024-12-25T10:00:00Z'' ''2024-12-24T12:00:00Z''"
  let ?track = "example_track 5 7 (JSON_stringify (status_props ?prev))"
  have same: "current_status.flightDesignator (example_status t c) =
                current_status.flightDesignator ?prev"
    "terminal (example_status t c) = terminal ?prev" "gate (example_status t c) = gate ?prev"
    "status (example_status t c) = status ?prev" for t c
    by (simp_all add: example_status_def)
  have stored: "last_status ?track = JSON_stringify (status_props ?prev)"
    by (simp add: example_track_def)
  have fd: "\<not> nullish (current_status.flightDesignator ?prev)"
    by (simp add: example_status_def)
  have prim: "\<forall>kvs. get_prop (current_status.flightDesignator ?prev) ''carrierCode'' \<noteq> JObj kvs \<and>
                    get_prop (current_status.flightDesignator ?prev) ''flightNumber'' \<noteq> JObj kvs \<and>
                    status ?prev \<noteq> JObj kvs"
    by (simp add: example_status_def)
  have recent: "checked ?prev = JStr ''2024-12-24T12:00:00Z''" "''2024-12-24T12:00:00Z'' \<noteq> []"
    "parseDate example_env ''2024-12-24T12:00:00Z'' = Some 1735041600000"
    "1735045200000 - 1735041600000 < (24 * 60 * 60 * 1000 :: int)"
    by (simp_all add: example_status_def example_env_def example_times)
  have t1: "''2024-12-25T10:00:00Z'' \<noteq> []"
    "parseDate example_env ''2024-12-25T10:00:00Z'' = Some 1735120800000"
    by (simp_all add: example_env_def example_times)
  have t5: "''2024-12-25T10:05:00Z'' \<noteq> []"
    "parseDate example_env ''2024-12-25T10:05:00Z'' = Some 1735121100000"
    by (simp_all add: example_env_def example_times)
  have t15: "''2024-12-25T10:15:00Z'' \<noteq> []"
    "parseDate example_env ''2024-12-25T10:15:00Z'' = Some 1735121700000"
    by (simp_all add: example_env_def example_times)
  have dep: "scheduledDepartureTime ?prev = JStr ''2024-12-25T10:00:00Z''"
    by (simp add: example_status_def)
  show ?thesis
    using schedule_shift_threshold [OF stored same fd prim recent t1(1) t5(1) t1(2) t5(2)]
          schedule_shift_threshold [OF stored same fd prim recent t1(1) t15(1) t1(2) t15(2)]
    by (simp add: example_status_def)
qed


subsection \<open>The snapshot of a new track\<close>

lemma against_null: "(js_and (strict_neq v JNull) (js_or v JNull) = JBool True) = (v = JBool True)"
  by (cases v) (auto simp: js_and_def js_or_def)

lemma against_undefined: "strict_neq v JUndefined = (v \<noteq> JUndefined)"
  by (cases v) simp_all

lemma find_append_first:
  "find P (xs @ ys) = (case find P xs of None \<Rightarrow> find P ys | Some x \<Rightarrow> Some x)"
  by (induction xs) auto

text \<open>
  Claim C10. The document that the store's \<open>createFlightTrack\<close> appends has a non-empty
  \<open>last_status\<close>: the serialized default snapshot with status \<open>SCHEDULED\<close>, \<open>null\<close>
  departure and arrival times, \<open>null\<close> terminal and gate, and the creation time as
  \<open>checked\<close>. So \<open>shouldNotifyUser\<close> never takes its ``no previous status'' branch for it;
  the result is the field-by-field comparison of the fetched status with this snapshot.
\<close>

theorem created_track_has_snapshot:
  assumes "createFlightTrack_store env trackData s = (trackId, s')"
  shows "\<exists>track. flight_tracks s' = flight_tracks s @ [track] \<and>
           track_id track = trackId \<and>
           (getFlightTrack trackId s = None \<longrightarrow> getFlightTrack trackId s' = Some track) \<and>
           last_status track = Json (default_snapshot (toISOString env (clock s))) \<and>
           text_truthy (last_status track) \<and>
           (\<forall>now cur. shouldNotifyUser_track env now track cur =
              (if nullish (current_status.flightDesignator cur) then Inl TypeError
               else Inr (get_prop (current_status.flightDesignator cur) ''carrierCode'' \<noteq> JUndefined \<or>
                         get_prop (current_status.flightDesignator cur) ''flightNumber'' \<noteq> JUndefined \<or>
                         terminal cur = JBool True \<or> gate cur = JBool True \<or>
                         strict_neq (status cur) (JStr ''SCHEDULED'') \<or>
                         at_least (daysSinceLastCheck env now
                                     (JStr (toISOString env (clock s)))) 1)))"
proof -
  let ?snap = "default_snapshot (toISOString env (clock s))"
  obtain track where track: "flight_tracks s' = flight_tracks s @ [track]"
    "track_id track = trackId" "last_status track = Json ?snap"
    using assms
    by (auto simp: createFlightTrack_store_def Let_def JSON_stringify_def default_snapshot_def)
  have found: "getFlightTrack trackId s = None \<longrightarrow> getFlightTrack trackId s' = Some track"
    using track(1,2) by (simp add: getFlightTrack_def find_append_first)
  have decide: "shouldNotifyUser_track env now track cur =
              (if nullish (current_status.flightDesignator cur) then Inl TypeError
               else Inr (get_prop (current_status.flightDesignator cur) ''carrierCode'' \<noteq> JUndefined \<or>
                         get_prop (current_status.flightDesignator cur) ''flightNumber'' \<noteq> JUndefined \<or>
                         terminal cur = JBool True \<or> gate cur = JBool True \<or>
                         strict_neq (status cur) (JStr ''SCHEDULED'') \<or>
                         at_least (daysSinceLastCheck env now
                                     (JStr (toISOString env (clock s)))) 1))" for now cur
    by (auto simp: shouldNotifyUser_track_def track(3) default_snapshot_def
        significantChanges_def timeChangedSignificantly_def against_null against_undefined)
  from track found decide show ?thesis by simp
qed


theorem created_track_has_snapshot_witness:
  "shouldNotifyUser_track example_env 1735041600000
     (last (flight_tracks (snd (createFlightTrack_store example_env
        \<lparr>track_data.userId = 7, track_data.telegramId = 7,
         track_data.carrierCode = ''LH'', track_data.flightNumber = ''400'',
         track_data.date = ''2024-12-25'', track_data.origin = Some ''FRA'',
         track_data.destination = Some ''JFK'', isSegment = False, segmentIndex = None,
         parentRoute = None\<rparr>
        (example_system [] [])))))
     (example_status ''2024-12-25T10:00:00Z'' ''2024-12-24T12:00:00Z'') = Inr True"
proof -
  let ?td = "\<lparr>track_data.userId = 7, track_data.telegramId = 7,
         track_data.carrierCode = ''LH'', track_data.flightNumber = ''400'',
         track_data.date = ''2024-12-25'', track_data.origin = Some ''FRA'',
         track_data.destination = Some ''JFK'', isSegment = False, segmentIndex = None,
         parentRoute = None\<rparr>"
  let ?s = "example_system [] []"
  obtain trackId s' where made: "createFlightTrack_store example_env ?td ?s = (trackId, s')"
    by (cases "createFlightTrack_store example_env ?td ?s")
  from created_track_has_snapshot [OF made] obtain track where
    "flight_tracks s' = flight_tracks ?s @ [track]"
    "\<forall>now cur. shouldNotifyUser_track example_env now track cur =
       (if nullish (current_status.flightDesignator cur) then Inl TypeError
        else Inr (get_prop (current_status.flightDesignator cur) ''carrierCode'' \<noteq> JUndefined \<or>
                  get_prop (current_status.flightDesignator cur) ''flightNumber'' \<noteq> JUndefined \<or>
                  terminal cur = JBool True \<or> gate cur = JBool True \<or>
                  strict_neq (status cur) (JStr ''SCHEDULED'') \<or>
                  at_least (daysSinceLastCheck example_env now
                              (JStr (toISOString example_env (clock ?s)))) 1))"
    by blast
  then show ?thesis
    by (simp add: made example_status_def)
qed


subsection \<open>Tracking a connecting itinerary\<close>












end
